theory Spec2Isabelle
  imports Complex_Main
begin

section \<open>ScrollMarks: the position-to-gradient pipeline and the instance lifecycle\<close>

text \<open>
  A shallow embedding of \<^verbatim>\<open>src/scroll-marks.js\<close>. JavaScript numbers are modelled as exact
  reals: rounding, \<^verbatim>\<open>NaN\<close> and the infinities of IEEE doubles are outside the model.
  Strings are lists of UTF-8 bytes. Pixel widths are whole numbers (\<^typ>\<open>int\<close>).
  A method that destructures \<^verbatim>\<open>privateData.get(this)\<close> raises a \<^verbatim>\<open>TypeError\<close> when the
  entry is gone; this is the only way the modelled code can raise.
\<close>

subsection \<open>Data model\<close>

datatype error = TypeError

text \<open>\<^verbatim>\<open>ColorMark\<close>: the field \<^verbatim>\<open>end\<close> is written \<open>end'\<close>.\<close>

record ColorMark =
  start :: real
  end' :: real
  color :: string

text \<open>\<^verbatim>\<open>ScrollMarksOptions\<close>: every field is optional (\<open>None\<close> is \<^verbatim>\<open>undefined\<close>).\<close>

record options =
  opt_container :: "nat option"
  opt_trackColor :: "string option"
  opt_thumbColor :: "string option"
  opt_selector :: "string option"
  opt_attributeName :: "string option"
  opt_scrollbarWidth :: "int option"

record config =
  container :: nat
  trackColor :: string
  thumbColor :: string
  selector :: string
  attributeName :: string
  scrollbarWidth :: int

text \<open>
  The instance's \<^verbatim>\<open>state\<close> object. \<open>styleElement\<close> is a reference to a node of the
  document; the two observers are present or absent (\<^verbatim>\<open>null\<close>); \<^verbatim>\<open>boundUpdate\<close> is the
  debounced closure, whose captured \<^verbatim>\<open>timeoutId\<close> lives in the browser state below.
\<close>

record state =
  state_id :: string
  styleElement :: "nat option"
  resizeObserver :: bool
  mutationObserver :: bool
  isDestroyed :: bool
  boundUpdate :: bool
  marks :: "ColorMark list"

record instance_data =
  config :: config
  state :: state

text \<open>A matched element: what \<^verbatim>\<open>getBoundingClientRect\<close> and \<^verbatim>\<open>getAttribute\<close> read.\<close>

record element =
  rect_top :: real
  rect_height :: real
  attributes :: "(string \<times> string) list"

definition getAttribute :: "element \<Rightarrow> string \<Rightarrow> string option" where
  "getAttribute el name = map_of (attributes el) name"

text \<open>
  The layout snapshot one recomputation pass reads: the selector engine
  (\<^verbatim>\<open>document.querySelectorAll\<close>, elements in document order), the scroll offsets, the two
  scroll heights and the viewport height.
\<close>

record dom =
  querySelectorAll :: "string \<Rightarrow> element list"
  pageYOffset :: real
  documentElement_scrollTop :: real
  body_scrollHeight :: real
  documentElement_scrollHeight :: real
  innerHeight :: real

subsection \<open>Strings and number formatting\<close>

definition digit_char :: "nat \<Rightarrow> char" where
  "digit_char d = char_of (48 + d)"

fun decimal :: "nat \<Rightarrow> string" where
  "decimal n = (if n < 10 then [digit_char n] else decimal (n div 10) @ [digit_char (n mod 10)])"

declare decimal.simps [simp del]

text \<open>\<^verbatim>\<open>String(w)\<close> for a whole number \<open>w\<close>.\<close>

definition int_to_string :: "int \<Rightarrow> string" where
  "int_to_string w = (if w < 0 then ''-'' @ decimal (nat (- w)) else decimal (nat w))"

text \<open>
  \<^verbatim>\<open>x.toFixed(2)\<close>: the integer \<open>n\<close> nearest to \<open>100 * x\<close> (the larger one on a tie), printed
  with two fraction digits; a negative \<open>x\<close> prints a minus sign and then \<open>- x\<close>.
  (The exponent notation of \<^verbatim>\<open>toFixed\<close> starts at \<open>10^21\<close>, far from any percentage.)
\<close>

definition toFixed2_nonneg :: "real \<Rightarrow> string" where
  "toFixed2_nonneg x =
     (let n = nat \<lfloor>x * 100 + 1 / 2\<rfloor>
      in decimal (n div 100) @ ''.'' @ [digit_char (n mod 100 div 10), digit_char (n mod 10)])"

definition toFixed2 :: "real \<Rightarrow> string" where
  "toFixed2 x = (if x < 0 then ''-'' @ toFixed2_nonneg (- x) else toFixed2_nonneg x)"

text \<open>
  \<^verbatim>\<open>String.prototype.trim\<close> strips the code points of the ECMAScript classes WhiteSpace
  (TAB, VT, FF, SP, U+00A0, U+FEFF and the Unicode space separators U+1680, U+2000 to
  U+200A, U+202F, U+205F, U+3000) and LineTerminator (LF, CR, U+2028, U+2029) from both
  ends. Each is listed with its UTF-8 bytes.
\<close>

definition white_space :: "string list" where
  "white_space =
     [[CHR 0x09], [CHR 0x0A], [CHR 0x0B], [CHR 0x0C], [CHR 0x0D], [CHR 0x20],
      [CHR 0xC2, CHR 0xA0], [CHR 0xE1, CHR 0x9A, CHR 0x80],
      [CHR 0xE2, CHR 0x80, CHR 0x80], [CHR 0xE2, CHR 0x80, CHR 0x81],
      [CHR 0xE2, CHR 0x80, CHR 0x82], [CHR 0xE2, CHR 0x80, CHR 0x83],
      [CHR 0xE2, CHR 0x80, CHR 0x84], [CHR 0xE2, CHR 0x80, CHR 0x85],
      [CHR 0xE2, CHR 0x80, CHR 0x86], [CHR 0xE2, CHR 0x80, CHR 0x87],
      [CHR 0xE2, CHR 0x80, CHR 0x88], [CHR 0xE2, CHR 0x80, CHR 0x89],
      [CHR 0xE2, CHR 0x80, CHR 0x8A], [CHR 0xE2, CHR 0x80, CHR 0xA8],
      [CHR 0xE2, CHR 0x80, CHR 0xA9], [CHR 0xE2, CHR 0x80, CHR 0xAF],
      [CHR 0xE2, CHR 0x81, CHR 0x9F], [CHR 0xE3, CHR 0x80, CHR 0x80],
      [CHR 0xEF, CHR 0xBB, CHR 0xBF]]"

text \<open>The length of the sequence of \<open>ps\<close> the string begins with, \<open>0\<close> when it begins with none.\<close>

definition leading :: "string list \<Rightarrow> string \<Rightarrow> nat" where
  "leading ps s = (case find (\<lambda>p. take (length p) s = p) ps of None \<Rightarrow> 0 | Some p \<Rightarrow> length p)"

fun strip :: "string list \<Rightarrow> string \<Rightarrow> string" where
  "strip ps [] = []"
| "strip ps (c # cs) =
     (let n = leading ps (c # cs) in if n = 0 then c # cs else strip ps (drop (n - 1) cs))"

definition trim :: "string \<Rightarrow> string" where
  "trim s = rev (strip (map rev white_space) (rev (strip white_space s)))"

text \<open>\<^verbatim>\<open>Array.prototype.join\<close>.\<close>

fun join :: "string \<Rightarrow> string list \<Rightarrow> string" where
  "join sep [] = []"
| "join sep [s] = s"
| "join sep (s # t # ss) = s @ sep @ join sep (t # ss)"

subsection \<open>\<^verbatim>\<open>Array.prototype.sort\<close> with a comparator\<close>

text \<open>
  ECMAScript requires \<^verbatim>\<open>sort\<close> to be stable; for a consistent comparator every stable
  sort returns the same array, so insertion sort stands for the engine's algorithm.
  An element moves in front of \<open>y\<close> only when the comparator does not put it after \<open>y\<close>.
\<close>

fun insert_by :: "('a \<Rightarrow> 'a \<Rightarrow> real) \<Rightarrow> 'a \<Rightarrow> 'a list \<Rightarrow> 'a list" where
  "insert_by cmp x [] = [x]"
| "insert_by cmp x (y # ys) = (if cmp x y \<le> 0 then x # y # ys else y # insert_by cmp x ys)"

definition js_sort :: "('a \<Rightarrow> 'a \<Rightarrow> real) \<Rightarrow> 'a list \<Rightarrow> 'a list" where
  "js_sort cmp xs = foldr (insert_by cmp) xs []"

subsection \<open>Mark Collector: \<^verbatim>\<open>_getScrollHeight\<close>, \<^verbatim>\<open>_getViewportHeight\<close>, \<^verbatim>\<open>_collectMarks\<close>\<close>

definition getScrollHeight :: "dom \<Rightarrow> real" where
  "getScrollHeight d = max (body_scrollHeight d) (documentElement_scrollHeight d)"

definition getViewportHeight :: "dom \<Rightarrow> real" where
  "getViewportHeight d = innerHeight d"

text \<open>
  The body of the \<^verbatim>\<open>forEach\<close> callback: the mark it pushes for one element, or \<open>None\<close>
  when it returns without pushing. \<^verbatim>\<open>!color\<close> holds for \<^verbatim>\<open>null\<close> and for the empty string.
\<close>

definition element_mark :: "config \<Rightarrow> dom \<Rightarrow> real \<Rightarrow> element \<Rightarrow> ColorMark option" where
  "element_mark cfg d totalHeight el =
     (let scrollTop = (if pageYOffset d \<noteq> 0 then pageYOffset d else documentElement_scrollTop d);
          top = rect_top el + scrollTop;
          height = rect_height el
      in case getAttribute el (attributeName cfg) of
           None \<Rightarrow> None
         | Some c \<Rightarrow>
             if c = [] then None
             else
               let startPercent = max 0 (top / totalHeight * 100);
                   endPercent = min 100 ((top + height) / totalHeight * 100)
               in if startPercent < endPercent
                  then Some \<lparr>start = startPercent, end' = endPercent, color = trim c\<rparr>
                  else None)"

definition push_mark :: "config \<Rightarrow> dom \<Rightarrow> real \<Rightarrow> element \<Rightarrow> ColorMark list \<Rightarrow> ColorMark list" where
  "push_mark cfg d totalHeight el ms =
     (case element_mark cfg d totalHeight el of None \<Rightarrow> ms | Some m \<Rightarrow> ms @ [m])"

text \<open>The array \<^verbatim>\<open>marks\<close> after the \<^verbatim>\<open>forEach\<close>, before it is sorted.\<close>

definition pushed_marks :: "config \<Rightarrow> dom \<Rightarrow> ColorMark list" where
  "pushed_marks cfg d =
     fold (push_mark cfg d (getScrollHeight d)) (querySelectorAll d (selector cfg)) []"

definition collectMarks :: "instance_data option \<Rightarrow> dom \<Rightarrow> error + ColorMark list" where
  "collectMarks data d =
     (case data of
        None \<Rightarrow> Inl TypeError
      | Some pd \<Rightarrow>
          if getScrollHeight d \<le> 0 then Inr []
          else Inr (js_sort (\<lambda>a b. start a - start b) (pushed_marks (config pd) d)))"

subsection \<open>Gradient Builder: \<^verbatim>\<open>_buildGradient\<close>\<close>

text \<open>
  One entry of the array \<^verbatim>\<open>stops\<close>. The source pushes the text
  \<^verbatim>\<open>`${color} ${percent}%`\<close>; the entry keeps its two parts, the colour and the printed
  percentage.
\<close>

record stop =
  stop_color :: string
  stop_percent :: string

definition fixed_stop :: "string \<Rightarrow> real \<Rightarrow> stop" where
  "fixed_stop c x = \<lparr>stop_color = c, stop_percent = toFixed2 x\<rparr>"

definition render_stop :: "stop \<Rightarrow> string" where
  "render_stop s = stop_color s @ '' '' @ stop_percent s @ ''%''"

text \<open>The \<^verbatim>\<open>for (const mark of marks)\<close> loop, threading \<^verbatim>\<open>lastEnd\<close> and \<^verbatim>\<open>stops\<close>.\<close>

fun gradient_loop :: "string \<Rightarrow> ColorMark list \<Rightarrow> real \<Rightarrow> stop list \<Rightarrow> real \<times> stop list" where
  "gradient_loop tc [] lastEnd stops = (lastEnd, stops)"
| "gradient_loop tc (mark # rest) lastEnd stops =
     (let stops1 = (if start mark > lastEnd + 0.01
                    then stops @ [fixed_stop tc lastEnd, fixed_stop tc (start mark)]
                    else stops);
          stops2 = stops1 @ [fixed_stop (color mark) (start mark), fixed_stop (color mark) (end' mark)]
      in gradient_loop tc rest (end' mark) stops2)"

definition gradient_stops :: "string \<Rightarrow> ColorMark list \<Rightarrow> stop list" where
  "gradient_stops tc ms =
     (case gradient_loop tc ms 0 [] of
        (lastEnd, stops) \<Rightarrow>
          if lastEnd < 99.99
          then stops @ [fixed_stop tc lastEnd, \<lparr>stop_color = tc, stop_percent = ''100''\<rparr>]
          else stops)"

definition buildGradient :: "instance_data option \<Rightarrow> ColorMark list \<Rightarrow> error + string" where
  "buildGradient data ms =
     (case data of
        None \<Rightarrow> Inl TypeError
      | Some pd \<Rightarrow>
          if length ms = 0 then Inr (trackColor (config pd))
          else Inr (''linear-gradient(to bottom, ''
                     @ join '', '' (map render_stop (gradient_stops (trackColor (config pd)) ms))
                     @ '')''))"


















subsection \<open>The document and the browser around one instance\<close>

text \<open>
  A \<^verbatim>\<open><style>\<close> node of the document. Nodes live in a store addressed by references;
  \<open>head\<close> lists the references of the children of \<^verbatim>\<open>document.head\<close>, each at most once.
  The model follows one instance: \<open>privateData\<close> is the entry of the \<^verbatim>\<open>WeakMap\<close> for it,
  \<open>None\<close> once deleted. \<open>timeoutId\<close> is the variable captured by its debounced closure and
  \<open>frames\<close> the handles of its pending \<^verbatim>\<open>requestAnimationFrame\<close> callbacks.
\<close>

record style_node =
  node_id :: string
  node_attributes :: "(string \<times> string) list"
  textContent :: string

record browser =
  privateData :: "instance_data option"
  head :: "nat list"
  nodes :: "nat \<Rightarrow> style_node"
  next_node :: nat
  timeoutId :: "nat option"
  frames :: "nat list"
  next_frame :: nat
  has_ResizeObserver :: bool
  has_MutationObserver :: bool
  observing_resize :: bool
  observing_mutations :: bool
  resize_listener :: bool

definition documentElement :: nat where
  "documentElement = 0"

definition appendChild :: "nat \<Rightarrow> browser \<Rightarrow> browser" where
  "appendChild r w = w\<lparr>head := filter (\<lambda>x. x \<noteq> r) (head w) @ [r]\<rparr>"

definition removeChild :: "nat \<Rightarrow> browser \<Rightarrow> browser" where
  "removeChild r w = w\<lparr>head := filter (\<lambda>x. x \<noteq> r) (head w)\<rparr>"

definition set_textContent :: "nat \<Rightarrow> string \<Rightarrow> browser \<Rightarrow> browser" where
  "set_textContent r txt w = w\<lparr>nodes := (nodes w)(r := (nodes w r)\<lparr>textContent := txt\<rparr>)\<rparr>"

subsection \<open>\<^verbatim>\<open>generateId\<close> and the constructor's defaults\<close>

text \<open>
  \<open>rnd\<close> is the text of \<^verbatim>\<open>Math.random().toString(36)\<close>, such as \<^verbatim>\<open>0.4fzyo82mvyr\<close>;
  \<^verbatim>\<open>substr(2, 9)\<close> drops two characters and keeps at most nine.
\<close>

definition generateId :: "string \<Rightarrow> string" where
  "generateId rnd = ''scrollmarks-'' @ take 9 (drop 2 rnd)"

text \<open>\<^verbatim>\<open>a || b\<close>: \<^verbatim>\<open>undefined\<close>, the empty string and \<open>0\<close> are falsy.\<close>

definition string_or :: "string option \<Rightarrow> string \<Rightarrow> string" where
  "string_or a b = (case a of None \<Rightarrow> b | Some s \<Rightarrow> if s = [] then b else s)"

definition number_or :: "int option \<Rightarrow> int \<Rightarrow> int" where
  "number_or a b = (case a of None \<Rightarrow> b | Some n \<Rightarrow> if n = 0 then b else n)"

definition object_or :: "nat option \<Rightarrow> nat \<Rightarrow> nat" where
  "object_or a b = (case a of None \<Rightarrow> b | Some r \<Rightarrow> r)"

definition config_of_options :: "options \<Rightarrow> config" where
  "config_of_options opts =
     \<lparr>container = object_or (opt_container opts) documentElement,
      trackColor = string_or (opt_trackColor opts) ''#1a1a2e'',
      thumbColor = string_or (opt_thumbColor opts) ''rgba(255,255,255,0.3)'',
      selector = string_or (opt_selector opts) ''[data-scroll-color]'',
      attributeName = string_or (opt_attributeName opts) ''data-scroll-color'',
      scrollbarWidth = number_or (opt_scrollbarWidth opts) 14\<rparr>"

subsection \<open>Render Sink and the public methods\<close>

definition style_text :: "config \<Rightarrow> string \<Rightarrow> string" where
  "style_text cfg gradient =
     (let w = scrollbarWidth cfg
      in ''\<newline>::-webkit-scrollbar {\<newline>  width: '' @ int_to_string w @ ''px;\<newline>}\<newline>''
         @ ''::-webkit-scrollbar-track {\<newline>  background: '' @ gradient @ '';\<newline>}\<newline>''
         @ ''::-webkit-scrollbar-thumb {\<newline>  background: '' @ thumbColor cfg
         @ '';\<newline>  border-radius: '' @ int_to_string (w div 2) @ ''px;\<newline>}\<newline>''
         @ ''::-webkit-scrollbar-thumb:hover {\<newline>  background: rgba(255, 255, 255, 0.5);\<newline>}'')"

definition applyStyles :: "string \<Rightarrow> browser \<Rightarrow> error + browser" where
  "applyStyles gradient w =
     (case privateData w of
        None \<Rightarrow> Inl TypeError
      | Some pd \<Rightarrow>
          (case styleElement (state pd) of
             None \<Rightarrow> Inr w
           | Some r \<Rightarrow> Inr (set_textContent r (style_text (config pd) gradient) w)))"

definition update :: "dom \<Rightarrow> browser \<Rightarrow> error + browser" where
  "update d w =
     (case privateData w of
        None \<Rightarrow> Inr w
      | Some pd \<Rightarrow>
          if isDestroyed (state pd) then Inr w
          else if getScrollHeight d \<le> getViewportHeight d then
            (case styleElement (state pd) of
               None \<Rightarrow> Inr w
             | Some r \<Rightarrow> Inr (set_textContent r [] w))
          else
            (case collectMarks (privateData w) d of
               Inl e \<Rightarrow> Inl e
             | Inr ms \<Rightarrow>
                 let w1 = w\<lparr>privateData := Some (pd\<lparr>state := (state pd)\<lparr>marks := ms\<rparr>\<rparr>)\<rparr>
                 in (case buildGradient (privateData w1) ms of
                       Inl e \<Rightarrow> Inl e
                     | Inr g \<Rightarrow> applyStyles g w1)))"

definition getMarks :: "browser \<Rightarrow> ColorMark list" where
  "getMarks w = (case privateData w of None \<Rightarrow> [] | Some pd \<Rightarrow> marks (state pd))"

definition getId :: "browser \<Rightarrow> string" where
  "getId w = (case privateData w of None \<Rightarrow> [] | Some pd \<Rightarrow> state_id (state pd))"

definition destroy :: "browser \<Rightarrow> browser" where
  "destroy w =
     (case privateData w of
        None \<Rightarrow> w
      | Some pd \<Rightarrow>
          if isDestroyed (state pd) then w
          else
            let st = (state pd)\<lparr>isDestroyed := True\<rparr>;
                w1 = (case styleElement st of None \<Rightarrow> w | Some r \<Rightarrow> removeChild r w);
                w2 = (if resizeObserver st then w1\<lparr>observing_resize := False\<rparr> else w1);
                w3 = (if mutationObserver st then w2\<lparr>observing_mutations := False\<rparr> else w2);
                w4 = (if boundUpdate st then w3\<lparr>resize_listener := False\<rparr> else w3)
            in w4\<lparr>privateData := None\<rparr>)"

subsection \<open>\<^verbatim>\<open>debounce\<close> and the animation frame\<close>

definition cancelAnimationFrame :: "nat \<Rightarrow> browser \<Rightarrow> browser" where
  "cancelAnimationFrame h w = w\<lparr>frames := filter (\<lambda>x. x \<noteq> h) (frames w)\<rparr>"

text \<open>
  A call of the debounced closure \<^verbatim>\<open>state.boundUpdate\<close>: a truthy \<^verbatim>\<open>timeoutId\<close> is
  cancelled, then a new frame callback is requested and its handle kept.
\<close>

definition debounced :: "browser \<Rightarrow> browser" where
  "debounced w =
     (let w1 = (case timeoutId w of
                  None \<Rightarrow> w
                | Some h \<Rightarrow> if h \<noteq> 0 then cancelAnimationFrame h w else w);
          h = next_frame w1
      in w1\<lparr>frames := frames w1 @ [h], next_frame := h + 1, timeoutId := Some h\<rparr>)"

text \<open>The requested callback: \<^verbatim>\<open>fn.apply(this, args); timeoutId = null\<close>, where \<^verbatim>\<open>fn\<close> calls \<^verbatim>\<open>update\<close>.\<close>

definition frame_callback :: "dom \<Rightarrow> browser \<Rightarrow> error + browser" where
  "frame_callback d w =
     (case update d w of Inl e \<Rightarrow> Inl e | Inr w' \<Rightarrow> Inr (w'\<lparr>timeoutId := None\<rparr>))"

fun run_callbacks :: "dom \<Rightarrow> nat list \<Rightarrow> browser \<Rightarrow> error + browser" where
  "run_callbacks d [] w = Inr w"
| "run_callbacks d (h # hs) w =
     (case frame_callback d w of Inl e \<Rightarrow> Inl e | Inr w' \<Rightarrow> run_callbacks d hs w')"

text \<open>The next display frame: the browser runs the pending callbacks and empties the list.\<close>

definition animation_frame :: "dom \<Rightarrow> browser \<Rightarrow> error + browser" where
  "animation_frame d w = run_callbacks d (frames w) (w\<lparr>frames := []\<rparr>)"

subsection \<open>The constructor and \<^verbatim>\<open>_init\<close>\<close>

definition init :: "dom \<Rightarrow> browser \<Rightarrow> error + browser" where
  "init d w =
     (case privateData w of
        None \<Rightarrow> Inl TypeError
      | Some pd \<Rightarrow>
          let r = next_node w;
              w1 = w\<lparr>nodes := (nodes w)(r := \<lparr>node_id = state_id (state pd),
                                               node_attributes = [(''data-scrollmarks'', [])],
                                               textContent = []\<rparr>),
                     next_node := r + 1\<rparr>;
              w2 = appendChild r w1;
              st1 = (state pd)\<lparr>styleElement := Some r, boundUpdate := True\<rparr>;
              st2 = (if has_ResizeObserver w2 then st1\<lparr>resizeObserver := True\<rparr> else st1);
              w3 = (if has_ResizeObserver w2 then w2\<lparr>observing_resize := True\<rparr> else w2);
              st3 = (if has_MutationObserver w3 then st2\<lparr>mutationObserver := True\<rparr> else st2);
              w4 = (if has_MutationObserver w3 then w3\<lparr>observing_mutations := True\<rparr> else w3);
              w5 = w4\<lparr>resize_listener := True, privateData := Some (pd\<lparr>state := st3\<rparr>)\<rparr>
          in update d w5)"

definition constructor :: "options \<Rightarrow> string \<Rightarrow> dom \<Rightarrow> browser \<Rightarrow> error + browser" where
  "constructor opts rnd d w =
     (let cfg = config_of_options opts;
          st = \<lparr>state_id = generateId rnd, styleElement = None, resizeObserver = False,
                mutationObserver = False, isDestroyed = False, boundUpdate = False, marks = []\<rparr>
      in init d (w\<lparr>privateData := Some \<lparr>config = cfg, state = st\<rparr>\<rparr>))"

text \<open>A run of \<^verbatim>\<open>update()\<close> calls, one per layout snapshot.\<close>

fun updates :: "dom list \<Rightarrow> browser \<Rightarrow> error + browser" where
  "updates [] w = Inr w"
| "updates (d # ds) w = (case update d w of Inl e \<Rightarrow> Inl e | Inr w' \<Rightarrow> updates ds w')"

subsection \<open>Lifecycle states and the style text of the instance\<close>

text \<open>\<^verbatim>\<open>Active\<close>: the private data exists and is not flagged destroyed.\<close>

definition active :: "browser \<Rightarrow> bool" where
  "active w = (case privateData w of None \<Rightarrow> False | Some pd \<Rightarrow> \<not> isDestroyed (state pd))"

text \<open>The text of the instance's own style element, when it has one.\<close>

definition style_output :: "browser \<Rightarrow> string option" where
  "style_output w =
     (case privateData w of
        None \<Rightarrow> None
      | Some pd \<Rightarrow> map_option (\<lambda>r. textContent (nodes w r)) (styleElement (state pd)))"

subsection \<open>Concrete pages\<close>

definition no_options :: options where
  "no_options = \<lparr>opt_container = None, opt_trackColor = None, opt_thumbColor = None,
     opt_selector = None, opt_attributeName = None, opt_scrollbarWidth = None\<rparr>"

definition blank_node :: style_node where
  "blank_node = \<lparr>node_id = [], node_attributes = [], textContent = []\<rparr>"

definition empty_browser :: browser where
  "empty_browser = \<lparr>privateData = None, head = [], nodes = (\<lambda>_. blank_node), next_node = 1,
     timeoutId = None, frames = [], next_frame = 1, has_ResizeObserver = True,
     has_MutationObserver = True, observing_resize = False, observing_mutations = False,
     resize_listener = False\<rparr>"

definition section_el :: "real \<Rightarrow> real \<Rightarrow> string \<Rightarrow> element" where
  "section_el t h c = \<lparr>rect_top = t, rect_height = h, attributes = [(''data-scroll-color'', c)]\<rparr>"

definition page :: "element list \<Rightarrow> real \<Rightarrow> dom" where
  "page els h = \<lparr>querySelectorAll = (\<lambda>sel. if sel = ''[data-scroll-color]'' then els else []),
     pageYOffset = 0, documentElement_scrollTop = 0, body_scrollHeight = h,
     documentElement_scrollHeight = h, innerHeight = 800\<rparr>"

definition default_data :: instance_data where
  "default_data = \<lparr>config = config_of_options no_options,
     state = \<lparr>state_id = generateId ''0.4fzyo82mvyr'', styleElement = Some 1, resizeObserver = True,
       mutationObserver = True, isDestroyed = False, boundUpdate = True, marks = []\<rparr>\<rparr>"

definition tall_page :: dom where
  "tall_page = page [section_el 100 200 ''#ff0000''] 2000"

definition short_page :: dom where
  "short_page = page [] 500"

definition falsy_options :: options where
  "falsy_options = \<lparr>opt_container = None, opt_trackColor = Some [], opt_thumbColor = Some [],
     opt_selector = Some [], opt_attributeName = Some [], opt_scrollbarWidth = Some 0\<rparr>"

text \<open>An Active instance with default options, as the constructor leaves it in an empty document.\<close>

definition active_browser :: browser where
  "active_browser = empty_browser\<lparr>privateData := Some default_data, head := [1], next_node := 2,
     observing_resize := True, observing_mutations := True, resize_listener := True\<rparr>"

subsection \<open>Properties of the Mark Collector\<close>

lemma insert_by_insort_key: "insert_by (\<lambda>a b. f a - f b) x ys = insort_key f x ys"
  by (induction ys) auto

lemma js_sort_sort_key: "js_sort (\<lambda>a b. f a - f b) xs = sort_key f xs"
  by (induction xs) (simp_all add: js_sort_def insert_by_insort_key)

lemma fold_push_mark:
  "fold (push_mark cfg d h) els acc = acc @ List.map_filter (element_mark cfg d h) els"
  by (induction els arbitrary: acc)
     (simp_all add: push_mark_def split: option.splits)

lemma pushed_marks_map_filter:
  "pushed_marks cfg d =
     List.map_filter (element_mark cfg d (getScrollHeight d)) (querySelectorAll d (selector cfg))"
  by (simp add: pushed_marks_def fold_push_mark)

lemma element_mark_range:
  "element_mark cfg d h el = Some m \<Longrightarrow> 0 \<le> start m \<and> start m < end' m \<and> end' m \<le> 100"
  by (auto simp: element_mark_def Let_def split: option.splits if_splits)

lemma pushed_marks_range:
  "m \<in> set (pushed_marks cfg d) \<Longrightarrow> 0 \<le> start m \<and> start m < end' m \<and> end' m \<le> 100"
  by (auto simp: pushed_marks_map_filter List.map_filter_def dest: element_mark_range)

text \<open>
  C2. Whatever the geometry of the matched elements and the total scrollable height, every
  mark the Collector returns has \<open>0 \<le> start < end \<le> 100\<close>: \<open>start\<close> is clamped from below,
  \<open>end\<close> from above, and the guard \<open>start < end\<close> supplies the two missing bounds.
\<close>

theorem collectMarks_range:
  "collectMarks data d = Inr ms \<Longrightarrow> m \<in> set ms \<Longrightarrow>
     0 \<le> start m \<and> start m < end' m \<and> end' m \<le> 100"
  by (auto simp: collectMarks_def js_sort_sort_key split: option.splits if_splits
           dest: pushed_marks_range)

theorem collectMarks_range_witness:
  "collectMarks (Some default_data) (page [section_el 100 200 ''#ff0000''] 2000) =
     Inr [\<lparr>start = 5, end' = 15, color = ''#ff0000''\<rparr>] \<and>
   \<lparr>start = 5, end' = 15, color = ''#ff0000''\<rparr> \<in> set [\<lparr>start = 5, end' = 15, color = ''#ff0000''\<rparr>] \<and>
   (0::real) \<le> 5 \<and> (5::real) < 15 \<and> (15::real) \<le> 100"
proof -
  have c: "collectMarks (Some default_data) (page [section_el 100 200 ''#ff0000''] 2000) =
     Inr [\<lparr>start = 5, end' = 15, color = ''#ff0000''\<rparr>]"
    by code_simp
  from collectMarks_range [OF c, of "\<lparr>start = 5, end' = 15, color = ''#ff0000''\<rparr>"] c
  show ?thesis by simp
qed

text \<open>
  C3. The Collector's result is sorted ascending by \<open>start\<close>, and for every value \<open>k\<close> the
  marks with \<open>start = k\<close> appear in it in the order in which the matched elements
  (in document order) produced them.
\<close>

theorem collectMarks_sorted_stable:
  "collectMarks (Some pd) d = Inr ms \<Longrightarrow>
     sorted (map start ms) \<and>
     (0 < getScrollHeight d \<longrightarrow>
       (\<forall>k. filter (\<lambda>m. start m = k) ms =
            filter (\<lambda>m. start m = k)
              (List.map_filter (element_mark (config pd) d (getScrollHeight d))
                 (querySelectorAll d (selector (config pd))))))"
  by (auto simp: collectMarks_def js_sort_sort_key sort_key_stable
                 pushed_marks_map_filter [symmetric] split: if_splits)

theorem collectMarks_sorted_stable_witness:
  "collectMarks (Some default_data)
     (page [section_el 300 200 ''b'', section_el 100 200 ''a'', section_el 300 100 ''c''] 2000) =
     Inr [\<lparr>start = 5, end' = 15, color = ''a''\<rparr>, \<lparr>start = 15, end' = 25, color = ''b''\<rparr>,
          \<lparr>start = 15, end' = 20, color = ''c''\<rparr>] \<and>
   sorted (map start [\<lparr>start = 5, end' = 15, color = ''a''\<rparr>, \<lparr>start = 15, end' = 25, color = ''b''\<rparr>,
          \<lparr>start = 15, end' = 20, color = ''c''\<rparr>]) \<and>
   0 < getScrollHeight (page [section_el 300 200 ''b'', section_el 100 200 ''a'', section_el 300 100 ''c''] 2000) \<and>
   filter (\<lambda>m. start m = 15)
     [\<lparr>start = 5, end' = 15, color = ''a''\<rparr>, \<lparr>start = 15, end' = 25, color = ''b''\<rparr>,
      \<lparr>start = 15, end' = 20, color = ''c''\<rparr>] =
   filter (\<lambda>m. start m = 15)
     (List.map_filter
        (element_mark (config default_data)
           (page [section_el 300 200 ''b'', section_el 100 200 ''a'', section_el 300 100 ''c''] 2000)
           (getScrollHeight (page [section_el 300 200 ''b'', section_el 100 200 ''a'', section_el 300 100 ''c''] 2000)))
        (querySelectorAll (page [section_el 300 200 ''b'', section_el 100 200 ''a'', section_el 300 100 ''c''] 2000)
           (selector (config default_data))))"
proof -
  let ?d = "page [section_el 300 200 ''b'', section_el 100 200 ''a'', section_el 300 100 ''c''] 2000"
  have c: "collectMarks (Some default_data) ?d =
     Inr [\<lparr>start = 5, end' = 15, color = ''a''\<rparr>, \<lparr>start = 15, end' = 25, color = ''b''\<rparr>,
          \<lparr>start = 15, end' = 20, color = ''c''\<rparr>]"
    by code_simp
  have h: "0 < getScrollHeight ?d" by (simp add: getScrollHeight_def page_def)
  from collectMarks_sorted_stable [OF c] h c show ?thesis by blast
qed

lemma element_mark_no_color:
  "getAttribute el (attributeName cfg) = None \<or> getAttribute el (attributeName cfg) = Some [] \<Longrightarrow>
     element_mark cfg d h el = None"
  by (auto simp: element_mark_def)

text \<open>
  C4. An element whose colour attribute holds only white space passes the test
  \<^verbatim>\<open>!color\<close> and is pushed with the trimmed, empty colour: with \<^verbatim>\<open>data-scroll-color="  "\<close>,
  top 100, height 200 and a total height of 2000 the Collector returns one mark.
\<close>

theorem collectMarks_whitespace_color:
  "collectMarks (Some default_data) (page [section_el 100 200 ''  ''] 2000) =
     Inr [\<lparr>start = 5, end' = 15, color = []\<rparr>]"
  by code_simp

subsection \<open>Properties of the Gradient Builder\<close>










































subsection \<open>Properties of the lifecycle\<close>

lemma update_total: "\<exists>w'. update d w = Inr w'"
  by (auto simp: update_def applyStyles_def collectMarks_def buildGradient_def Let_def
           split: option.splits)

lemma update_not_active: "\<not> active w \<Longrightarrow> update d w = Inr w"
  by (auto simp: update_def active_def split: option.splits)

lemma update_active: "update d w = Inr w' \<Longrightarrow> active w' = active w"
  by (auto simp: update_def active_def applyStyles_def collectMarks_def buildGradient_def Let_def
        set_textContent_def split: option.splits if_splits)

lemma update_getId: "update d w = Inr w' \<Longrightarrow> getId w' = getId w"
  by (auto simp: update_def getId_def applyStyles_def collectMarks_def buildGradient_def Let_def
        set_textContent_def split: option.splits if_splits)

lemma update_head: "update d w = Inr w' \<Longrightarrow> head w' = head w"
  by (auto simp: update_def applyStyles_def collectMarks_def buildGradient_def Let_def
        set_textContent_def split: option.splits if_splits)

lemma update_idem: "update d w = Inr w1 \<Longrightarrow> update d w1 = Inr w1"
  by (auto simp: update_def applyStyles_def collectMarks_def buildGradient_def Let_def
        set_textContent_def split: option.splits if_splits)

lemma update_scrollable:
  "privateData w = Some pd \<Longrightarrow> \<not> isDestroyed (state pd) \<Longrightarrow>
   getViewportHeight d < getScrollHeight d \<Longrightarrow> update d w = Inr w' \<Longrightarrow>
     collectMarks (privateData w) d = Inr (getMarks w')"
  by (auto simp: update_def getMarks_def applyStyles_def collectMarks_def buildGradient_def Let_def
        set_textContent_def split: option.splits if_splits)

lemma update_not_scrollable:
  "getScrollHeight d \<le> getViewportHeight d \<Longrightarrow> update d w = Inr w' \<Longrightarrow> getMarks w' = getMarks w"
  by (auto simp: update_def getMarks_def set_textContent_def split: option.splits if_splits)

lemma destroy_privateData: "active w \<Longrightarrow> privateData (destroy w) = None"
  by (auto simp: destroy_def active_def Let_def removeChild_def split: option.splits)

lemma destroy_not_active: "\<not> active (destroy w)"
  by (auto simp: destroy_def active_def Let_def removeChild_def split: option.splits)

lemma destroy_idem: "destroy (destroy w) = destroy w"
  by (auto simp: destroy_def Let_def removeChild_def split: option.splits)

lemma destroy_head:
  "active w \<Longrightarrow> privateData w = Some pd \<Longrightarrow> styleElement (state pd) = Some r \<Longrightarrow>
     r \<notin> set (head (destroy w))"
  by (auto simp: destroy_def active_def Let_def removeChild_def split: option.splits)

lemma destroy_frames: "frames (destroy w) = frames w \<and> timeoutId (destroy w) = timeoutId w"
  by (auto simp: destroy_def Let_def removeChild_def split: option.splits)

lemma constructor_total: "\<exists>w'. constructor opts rnd d w = Inr w'"
  by (simp add: constructor_def init_def Let_def update_total)

lemma update_privateData:
  "update d w = Inr w' \<Longrightarrow> privateData w = Some pd \<Longrightarrow>
     \<exists>ms. privateData w' = Some (pd\<lparr>state := (state pd)\<lparr>marks := ms\<rparr>\<rparr>)"
proof (cases "isDestroyed (state pd) \<or> getScrollHeight d \<le> getViewportHeight d")
  case True
  assume "update d w = Inr w'" "privateData w = Some pd"
  with True have "privateData w' = Some pd"
    by (auto simp: update_def set_textContent_def split: option.splits if_splits)
  then have "privateData w' = Some (pd\<lparr>state := (state pd)\<lparr>marks := marks (state pd)\<rparr>\<rparr>)"
    by simp
  then show ?thesis ..
next
  case False
  assume "update d w = Inr w'" "privateData w = Some pd"
  with False show ?thesis
    by (auto simp: update_def applyStyles_def collectMarks_def buildGradient_def Let_def
          set_textContent_def split: option.splits if_splits)
qed

lemma updates_total: "\<exists>w'. updates ds w = Inr w'"
proof (induction ds arbitrary: w)
  case Nil
  show ?case by simp
next
  case (Cons d ds)
  obtain w1 where "update d w = Inr w1" using update_total by blast
  with Cons.IH [of w1] show ?case by simp
qed

lemma updates_getId: "updates ds w = Inr w' \<Longrightarrow> getId w' = getId w"
  by (induction ds arbitrary: w) (auto split: sum.splits dest: update_getId)

lemma updates_active: "updates ds w = Inr w' \<Longrightarrow> active w' = active w"
  by (induction ds arbitrary: w) (auto split: sum.splits dest: update_active)

lemma constructor_result:
  "constructor opts rnd d w = Inr w' \<Longrightarrow>
     \<exists>pd. privateData w' = Some pd \<and> config pd = config_of_options opts \<and>
          state_id (state pd) = generateId rnd \<and> \<not> isDestroyed (state pd) \<and>
          styleElement (state pd) = Some (next_node w) \<and> next_node w \<in> set (head w')"
proof -
  assume c: "constructor opts rnd d w = Inr w'"
  then obtain w5 pd5 where u: "update d w5 = Inr w'" and p: "privateData w5 = Some pd5"
    and f: "config pd5 = config_of_options opts" "state_id (state pd5) = generateId rnd"
       "\<not> isDestroyed (state pd5)" "styleElement (state pd5) = Some (next_node w)"
       "next_node w \<in> set (head w5)"
    by (auto simp: constructor_def init_def Let_def appendChild_def)
  from update_privateData [OF u p] obtain ms where
    "privateData w' = Some (pd5\<lparr>state := (state pd5)\<lparr>marks := ms\<rparr>\<rparr>)" ..
  with f update_head [OF u] show ?thesis by simp
qed

lemma constructor_active: "constructor opts rnd d w = Inr w' \<Longrightarrow> active w'"
  by (auto simp: active_def dest: constructor_result)

lemma constructor_getId: "constructor opts rnd d w = Inr w' \<Longrightarrow> getId w' = generateId rnd"
  by (auto simp: getId_def dest: constructor_result)

lemma constructor_marks:
  "constructor opts rnd d w = Inr w' \<Longrightarrow> getViewportHeight d < getScrollHeight d \<Longrightarrow>
     collectMarks (Some \<lparr>config = config_of_options opts, state = st\<rparr>) d = Inr (getMarks w')"
  by (auto simp: constructor_def init_def Let_def update_def getMarks_def applyStyles_def
        collectMarks_def buildGradient_def set_textContent_def split: option.splits if_splits)

lemma run_callbacks_not_active:
  "\<not> active w \<Longrightarrow>
     run_callbacks d hs w = Inr (if hs = [] then w else w\<lparr>timeoutId := None\<rparr>)"
proof (induction hs arbitrary: w)
  case Nil
  show ?case by simp
next
  case (Cons h hs)
  have n: "\<not> active (w\<lparr>timeoutId := None\<rparr>)" using Cons.prems by (simp add: active_def)
  have "frame_callback d w = Inr (w\<lparr>timeoutId := None\<rparr>)"
    using Cons.prems by (simp add: frame_callback_def update_not_active)
  with Cons.IH [OF n] show ?case by simp
qed

subsection \<open>The claims about the lifecycle\<close>

text \<open>
  C5. \<^verbatim>\<open>update()\<close> returns early when the page is not scrollable and leaves
  \<^verbatim>\<open>state.marks\<close> as it was. An instance built on a page of height 2000 with one marked
  section holds the mark \<open>{5, 15}\<close>; after the page has shrunk to height 500 (viewport 800)
  and lost the section, \<^verbatim>\<open>update()\<close> keeps that mark, although the Collector returns no
  mark for the new snapshot.
\<close>

theorem update_not_scrollable_keeps_marks:
  "\<exists>w1 w2. constructor no_options ''0.4fzyo82mvyr'' tall_page empty_browser = Inr w1 \<and>
      getMarks w1 = [\<lparr>start = 5, end' = 15, color = ''#ff0000''\<rparr>] \<and>
      getScrollHeight short_page \<le> getViewportHeight short_page \<and>
      update short_page w1 = Inr w2 \<and>
      getMarks w2 = [\<lparr>start = 5, end' = 15, color = ''#ff0000''\<rparr>] \<and>
      collectMarks (privateData w2) short_page = Inr []"
proof -
  obtain w1 where c: "constructor no_options ''0.4fzyo82mvyr'' tall_page empty_browser = Inr w1"
    using constructor_total by blast
  obtain w2 where u: "update short_page w1 = Inr w2"
    using update_total by blast
  have t: "getViewportHeight tall_page < getScrollHeight tall_page"
    by (simp add: tall_page_def page_def getViewportHeight_def getScrollHeight_def)
  have s: "getScrollHeight short_page \<le> getViewportHeight short_page"
    by (simp add: short_page_def page_def getViewportHeight_def getScrollHeight_def)
  have "collectMarks (Some default_data) tall_page =
          Inr [\<lparr>start = 5, end' = 15, color = ''#ff0000''\<rparr>]"
    by code_simp
  with constructor_marks [OF c t, of "state default_data"]
  have m1: "getMarks w1 = [\<lparr>start = 5, end' = 15, color = ''#ff0000''\<rparr>]"
    by (simp add: default_data_def)
  from update_not_scrollable [OF s u] m1
  have m2: "getMarks w2 = [\<lparr>start = 5, end' = 15, color = ''#ff0000''\<rparr>]"
    by simp
  from constructor_result [OF c] obtain pd where p1: "privateData w1 = Some pd" by blast
  from update_privateData [OF u p1] obtain pd' where p2: "privateData w2 = Some pd'" by blast
  have e: "collectMarks (privateData w2) short_page = Inr []"
    by (simp add: p2 collectMarks_def pushed_marks_def short_page_def page_def js_sort_def)
  from c m1 s u m2 e show ?thesis by blast
qed

text \<open>
  C6. After \<^verbatim>\<open>destroy()\<close> on an Active instance, \<^verbatim>\<open>update()\<close> returns without raising and
  changes nothing, \<^verbatim>\<open>getMarks()\<close> returns the empty sequence, a second \<^verbatim>\<open>destroy()\<close>
  changes nothing, and the instance's style element is no longer a child of the
  document head.
\<close>

theorem destroyed_instance_calls:
  "active w \<Longrightarrow>
     update d (destroy w) = Inr (destroy w) \<and>
     getMarks (destroy w) = [] \<and>
     destroy (destroy w) = destroy w \<and>
     (\<forall>pd r. privateData w = Some pd \<and> styleElement (state pd) = Some r \<longrightarrow>
        r \<notin> set (head (destroy w)))"
  by (auto simp: update_not_active destroy_not_active destroy_idem destroy_privateData
        getMarks_def destroy_head)

theorem destroyed_instance_calls_witness:
  "active active_browser \<and>
   privateData active_browser = Some default_data \<and>
   styleElement (state default_data) = Some 1 \<and>
   head active_browser = [1] \<and>
   update tall_page (destroy active_browser) = Inr (destroy active_browser) \<and>
   getMarks (destroy active_browser) = [] \<and>
   destroy (destroy active_browser) = destroy active_browser \<and>
   1 \<notin> set (head (destroy active_browser))"
proof -
  have a: "active active_browser"
    by (simp add: active_def active_browser_def default_data_def)
  have p: "privateData active_browser = Some default_data"
    and s: "styleElement (state default_data) = Some 1"
    and h: "head active_browser = [1]"
    by (simp_all add: active_browser_def default_data_def)
  from destroyed_instance_calls [OF a, of tall_page] a p s h show ?thesis by blast
qed

text \<open>
  C7. Two \<^verbatim>\<open>update()\<close> calls on the same layout snapshot both return, and after the
  second the instance's style text, and the text of every style node, is what the first
  call left.
\<close>

theorem update_twice_same_style:
  "\<exists>w1 w2. update d w = Inr w1 \<and> update d w1 = Inr w2 \<and>
      style_output w2 = style_output w1 \<and> nodes w2 = nodes w1"
proof -
  obtain w1 where u: "update d w = Inr w1" using update_total by blast
  from update_idem [OF u] u show ?thesis by blast
qed

text \<open>
  C8 (amended). \<^verbatim>\<open>destroy()\<close> leaves the pending frame request and the captured
  \<^verbatim>\<open>timeoutId\<close> as they are. The next animation frame runs the callback without
  raising, and the \<^verbatim>\<open>update()\<close> it calls finds the instance destroyed: the private data,
  the children of the document head and every style node stay as \<^verbatim>\<open>destroy()\<close> left them.
\<close>

theorem pending_frame_after_destroy:
  "frames (destroy w) = frames w \<and> timeoutId (destroy w) = timeoutId w \<and>
   (\<exists>w'. animation_frame d (destroy w) = Inr w' \<and>
          privateData w' = privateData (destroy w) \<and> head w' = head (destroy w) \<and>
          nodes w' = nodes (destroy w) \<and> frames w' = [])"
proof -
  have "\<not> active ((destroy w)\<lparr>frames := []\<rparr>)"
    using destroy_not_active [of w] by (simp add: active_def)
  then show ?thesis
    by (simp add: destroy_frames animation_frame_def run_callbacks_not_active)
qed

text \<open>
  C8 as stated fails: a recomputation requested before \<^verbatim>\<open>destroy()\<close> is still pending
  after it.
\<close>

theorem destroy_keeps_pending_frame_counterexample:
  "active active_browser \<and>
   frames (debounced active_browser) = [1] \<and>
   timeoutId (debounced active_browser) = Some 1 \<and>
   frames (destroy (debounced active_browser)) = [1] \<and>
   timeoutId (destroy (debounced active_browser)) = Some 1 \<and>
   privateData (destroy (debounced active_browser)) = None"
  by (simp add: active_def active_browser_def default_data_def empty_browser_def
        debounced_def destroy_def removeChild_def Let_def)

text \<open>
  C9 (amended). The constructor returns, and \<^verbatim>\<open>getId()\<close> is then \<^verbatim>\<open>scrollmarks-\<close> followed
  by at most nine characters taken from the text of \<^verbatim>\<open>Math.random()\<close>; it stays the same
  through any run of \<^verbatim>\<open>update()\<close> calls, and is the empty string after \<^verbatim>\<open>destroy()\<close>.
  Two identifiers are equal exactly when these tokens are equal.
\<close>

theorem getId_stable_while_active:
  "\<exists>w. constructor opts rnd d w0 = Inr w \<and>
       getId w = ''scrollmarks-'' @ take 9 (drop 2 rnd) \<and>
       (\<forall>ds. \<exists>w'. updates ds w = Inr w' \<and> getId w' = getId w \<and> getId (destroy w') = []) \<and>
       (\<forall>rnd'. generateId rnd' = generateId rnd \<longleftrightarrow> take 9 (drop 2 rnd') = take 9 (drop 2 rnd))"
proof -
  obtain w where c: "constructor opts rnd d w0 = Inr w" using constructor_total by blast
  have g: "getId w = ''scrollmarks-'' @ take 9 (drop 2 rnd)"
    using constructor_getId [OF c] by (simp add: generateId_def)
  have "\<exists>w'. updates ds w = Inr w' \<and> getId w' = getId w \<and> getId (destroy w') = []" for ds
  proof -
    obtain w' where u: "updates ds w = Inr w'" using updates_total by blast
    have "active w'" using updates_active [OF u] constructor_active [OF c] by simp
    then have "getId (destroy w') = []" by (simp add: getId_def destroy_privateData)
    with u updates_getId [OF u] show ?thesis by blast
  qed
  with c g show ?thesis by (auto simp: generateId_def)
qed

text \<open>
  C9 as stated fails: \<^verbatim>\<open>getId()\<close> returns the empty string after \<^verbatim>\<open>destroy()\<close>, and two
  different random texts that agree on the nine characters kept give the same identifier.
\<close>

theorem getId_counterexample:
  "active active_browser \<and>
   getId active_browser = ''scrollmarks-4fzyo82mv'' \<and>
   getId (destroy active_browser) = [] \<and>
   generateId ''0.4fzyo82mvyr'' = generateId ''0.4fzyo82mvyr7''"
  by (simp add: active_def getId_def active_browser_def default_data_def empty_browser_def
        destroy_def removeChild_def Let_def generateId_def)

text \<open>
  C10. The constructor returns, and in the configuration it stores every option that is
  \<^verbatim>\<open>undefined\<close>, the empty string or \<open>0\<close> has been replaced by its default.
\<close>

theorem constructor_falsy_defaults:
  "\<exists>w' pd. constructor opts rnd d w = Inr w' \<and> privateData w' = Some pd \<and>
     (opt_container opts = None \<longrightarrow> container (config pd) = documentElement) \<and>
     (opt_trackColor opts = None \<or> opt_trackColor opts = Some [] \<longrightarrow>
        trackColor (config pd) = ''#1a1a2e'') \<and>
     (opt_thumbColor opts = None \<or> opt_thumbColor opts = Some [] \<longrightarrow>
        thumbColor (config pd) = ''rgba(255,255,255,0.3)'') \<and>
     (opt_selector opts = None \<or> opt_selector opts = Some [] \<longrightarrow>
        selector (config pd) = ''[data-scroll-color]'') \<and>
     (opt_attributeName opts = None \<or> opt_attributeName opts = Some [] \<longrightarrow>
        attributeName (config pd) = ''data-scroll-color'') \<and>
     (opt_scrollbarWidth opts = None \<or> opt_scrollbarWidth opts = Some 0 \<longrightarrow>
        scrollbarWidth (config pd) = 14)"
proof -
  obtain w' where c: "constructor opts rnd d w = Inr w'" using constructor_total by blast
  from constructor_result [OF c] obtain pd where
    p: "privateData w' = Some pd" and f: "config pd = config_of_options opts" by blast
  have "(opt_container opts = None \<longrightarrow> container (config pd) = documentElement) \<and>
     (opt_trackColor opts = None \<or> opt_trackColor opts = Some [] \<longrightarrow>
        trackColor (config pd) = ''#1a1a2e'') \<and>
     (opt_thumbColor opts = None \<or> opt_thumbColor opts = Some [] \<longrightarrow>
        thumbColor (config pd) = ''rgba(255,255,255,0.3)'') \<and>
     (opt_selector opts = None \<or> opt_selector opts = Some [] \<longrightarrow>
        selector (config pd) = ''[data-scroll-color]'') \<and>
     (opt_attributeName opts = None \<or> opt_attributeName opts = Some [] \<longrightarrow>
        attributeName (config pd) = ''data-scroll-color'') \<and>
     (opt_scrollbarWidth opts = None \<or> opt_scrollbarWidth opts = Some 0 \<longrightarrow>
        scrollbarWidth (config pd) = 14)"
    by (auto simp: f config_of_options_def string_or_def number_or_def object_or_def)
  with c p show ?thesis
    by - (rule exI [of _ w'], rule exI [of _ pd], simp)
qed

theorem constructor_falsy_defaults_witness:
  "\<exists>w' pd. constructor falsy_options ''0.4fzyo82mvyr'' tall_page empty_browser = Inr w' \<and>
     privateData w' = Some pd \<and>
     opt_scrollbarWidth falsy_options = Some 0 \<and> scrollbarWidth (config pd) = 14 \<and>
     opt_trackColor falsy_options = Some [] \<and> trackColor (config pd) = ''#1a1a2e'' \<and>
     opt_thumbColor falsy_options = Some [] \<and> thumbColor (config pd) = ''rgba(255,255,255,0.3)'' \<and>
     opt_selector falsy_options = Some [] \<and> selector (config pd) = ''[data-scroll-color]'' \<and>
     opt_attributeName falsy_options = Some [] \<and> attributeName (config pd) = ''data-scroll-color'' \<and>
     opt_container falsy_options = None \<and> container (config pd) = documentElement"
  using constructor_falsy_defaults [of falsy_options "''0.4fzyo82mvyr''" tall_page empty_browser]
  by (auto simp: falsy_options_def)

end
